theory Spec2Isabelle
  imports Complex_Main
begin

section \<open>JavaScript values\<close>

text \<open>
  A JavaScript number is a double: not-a-number, one of the two infinities, or a finite
  value, kept here as the real number it denotes. The program only compares numbers and
  passes them on, and a comparison of two finite doubles is the comparison of the reals
  they denote.
\<close>

datatype jsnum = NaN | PInf | NInf | Fin real

text \<open>
  The values a decoded JSON body can hold, with \<open>undefined\<close> for what a read of a missing
  property gives. An object is the list of its own properties (each key listed once).
\<close>

datatype jsval =
    JUndefined
  | JNull
  | JBool bool
  | JNum jsnum
  | JStr string
  | JArr "jsval list"
  | JObj "(string \<times> jsval) list"

datatype js_error = TypeError

text \<open>Truthiness, as \<open>!v\<close>, \<open>a || b\<close> and \<open>if (v)\<close> test it.\<close>

fun truthy :: "jsval \<Rightarrow> bool" where
  "truthy JUndefined = False"
| "truthy JNull = False"
| "truthy (JBool b) = b"
| "truthy (JNum n) = (n \<noteq> NaN \<and> n \<noteq> Fin 0)"
| "truthy (JStr s) = (s \<noteq> [])"
| "truthy (JArr xs) = True"
| "truthy (JObj kvs) = True"

text \<open>\<open>a || b\<close> and \<open>a ?? b\<close>.\<close>

definition js_or :: "jsval \<Rightarrow> jsval \<Rightarrow> jsval" where
  "js_or a b = (if truthy a then a else b)"

definition nullish :: "jsval \<Rightarrow> bool" where
  "nullish v = (v = JUndefined \<or> v = JNull)"

definition coalesce :: "jsval \<Rightarrow> jsval \<Rightarrow> jsval" where
  "coalesce a b = (if nullish a then b else a)"

text \<open>
  \<open>v.key\<close> for a value \<open>v\<close> that is neither \<open>null\<close> nor \<open>undefined\<close> and a key that
  names no built-in property (\<open>daily\<close>, \<open>time\<close>, \<open>filename\<close>, \<open>error\<close>, the six series
  names): an object gives its own property, everything else \<open>undefined\<close>. On \<open>null\<close> and
  \<open>undefined\<close> the read throws in JavaScript; every caller below guards that case itself,
  and \<open>v?.key\<close> is this function as it stands.
\<close>

fun js_prop :: "jsval \<Rightarrow> string \<Rightarrow> jsval" where
  "js_prop (JObj kvs) key = (case map_of kvs key of Some v \<Rightarrow> v | None \<Rightarrow> JUndefined)"
| "js_prop v key = JUndefined"

text \<open>The decimal digits of a natural number, as the string of an array index.\<close>

definition digit_char :: "nat \<Rightarrow> char" where
  "digit_char d = ''0123456789'' ! d"

function showNat :: "nat \<Rightarrow> string" where
  "showNat n = (if n < 10 then [digit_char n] else showNat (n div 10) @ [digit_char (n mod 10)])"
  by pat_completeness auto
termination
  by (relation "measure (\<lambda>n. n)") auto

declare showNat.simps [simp del]

text \<open>
  \<open>v?.[index]\<close>: an array gives its element, a string its character, an object the
  property named by the index; out of range, and on every other value, \<open>undefined\<close>.
\<close>

fun opt_index :: "jsval \<Rightarrow> nat \<Rightarrow> jsval" where
  "opt_index (JArr xs) i = (if i < length xs then xs ! i else JUndefined)"
| "opt_index (JStr s) i = (if i < length s then JStr [s ! i] else JUndefined)"
| "opt_index (JObj kvs) i = js_prop (JObj kvs) (showNat i)"
| "opt_index v i = JUndefined"

section \<open>The transformer (backendApi.js)\<close>

text \<open>A row of the table; its \<open>id\<close> is \<open>row_id\<close> here.\<close>

record row =
  row_id :: nat
  date :: jsval
  tempMax :: jsval
  tempMin :: jsval
  tempMean :: jsval
  apparentTempMax :: jsval
  apparentTempMin :: jsval
  apparentTempMean :: jsval

text \<open>One cell of a row: \<open>daily.<key>?.[index] ?? 'N/A'\<close>.\<close>

definition cell :: "jsval \<Rightarrow> string \<Rightarrow> nat \<Rightarrow> jsval" where
  "cell daily key index = coalesce (opt_index (js_prop daily key) index) (JStr ''N/A'')"

text \<open>
  \<open>transformDataForTable\<close>. \<open>dates.map\<close> runs over an array; on a truthy \<open>daily.time\<close>
  that is no array, \<open>dates.map\<close> is not a function and the call throws.
\<close>

definition transformDataForTable :: "jsval \<Rightarrow> js_error + row list" where
  "transformDataForTable weatherData =
     (if \<not> truthy weatherData \<or> \<not> truthy (js_prop weatherData ''daily'') then Inr []
      else
        let daily = js_prop weatherData ''daily'';
            dates = js_or (js_prop daily ''time'') (JArr [])
        in case dates of
             JArr ds \<Rightarrow>
               Inr (map (\<lambda>(index, date).
                      \<lparr> row_id = index + 1,
                        date = date,
                        tempMax = cell daily ''temperature_2m_max'' index,
                        tempMin = cell daily ''temperature_2m_min'' index,
                        tempMean = cell daily ''temperature_2m_mean'' index,
                        apparentTempMax = cell daily ''apparent_temperature_max'' index,
                        apparentTempMin = cell daily ''apparent_temperature_min'' index,
                        apparentTempMean = cell daily ''apparent_temperature_mean'' index \<rparr>)
                    (enumerate 0 ds))
           | _ \<Rightarrow> Inl TypeError)"


text \<open>
  \<open>transformDataForChart\<close>. A chart is \<open>{labels, datasets}\<close>; the field \<open>data\<close> of a dataset
  is \<open>ds_data\<close> here. The degree sign of the labels is the code unit U+00B0.
\<close>

record dataset =
  label :: string
  ds_data :: jsval
  borderColor :: string
  backgroundColor :: string
  tension :: real

record chart =
  labels :: jsval
  datasets :: "dataset list"

definition transformDataForChart :: "jsval \<Rightarrow> chart option" where
  "transformDataForChart weatherData =
     (if \<not> truthy weatherData \<or> \<not> truthy (js_prop weatherData ''daily'') then None
      else
        let daily = js_prop weatherData ''daily'';
            dates = js_or (js_prop daily ''time'') (JArr [])
        in Some
          \<lparr> labels = dates,
            datasets =
              [ \<lparr> label = ''Max Temperature ('' @ [CHR 0xB0] @ ''C)'',
                  ds_data = js_or (js_prop daily ''temperature_2m_max'') (JArr []),
                  borderColor = ''rgb(239, 68, 68)'',
                  backgroundColor = ''rgba(239, 68, 68, 0.1)'',
                  tension = 0.4 \<rparr>,
                \<lparr> label = ''Min Temperature ('' @ [CHR 0xB0] @ ''C)'',
                  ds_data = js_or (js_prop daily ''temperature_2m_min'') (JArr []),
                  borderColor = ''rgb(59, 130, 246)'',
                  backgroundColor = ''rgba(59, 130, 246, 0.1)'',
                  tension = 0.4 \<rparr>,
                \<lparr> label = ''Mean Temperature ('' @ [CHR 0xB0] @ ''C)'',
                  ds_data = js_or (js_prop daily ''temperature_2m_mean'') (JArr []),
                  borderColor = ''rgb(16, 185, 129)'',
                  backgroundColor = ''rgba(16, 185, 129, 0.1)'',
                  tension = 0.4 \<rparr> ] \<rparr>)"

section \<open>The host: built-ins, clock and transport\<close>

text \<open>
  What axios hands back: a response (\<open>response.data\<close> is \<open>body\<close> here), or a rejection
  whose error has a \<open>response\<close> when the server answered with an error status, a
  \<open>request\<close> when it was sent and nothing came back, and a \<open>message\<close>.
\<close>

record http_response =
  status :: nat
  statusText :: string
  body :: jsval

record axios_error =
  response :: "http_response option"
  request :: bool
  message :: "string option"

datatype outcome = Resolved http_response | Rejected axios_error

text \<open>A request that went out: the verb, the URL, and the body of a POST.\<close>

datatype call = Post string jsval | Get string

text \<open>
  The parts of the host the program calls and this theory does not define: the rounding
  of a decimal value to a double (\<open>rnd\<close>; a value too large becomes an infinity),
  \<open>Number.prototype.toString\<close> and \<open>toFixed\<close>, \<open>Date.prototype.toISOString\<close> on a time
  value, the time value of \<open>new Date()\<close> once \<open>setHours(0, 0, 0, 0)\<close> has cut it to the
  local midnight (\<open>today\<close>), and the backend behind axios.
\<close>

record env =
  rnd :: "real \<Rightarrow> jsnum"
  numToString :: "jsnum \<Rightarrow> string"
  toFixed :: "nat \<Rightarrow> jsnum \<Rightarrow> string"
  toISOString :: "int \<Rightarrow> string"
  today :: int
  transport_post :: "string \<Rightarrow> jsval \<Rightarrow> outcome"
  transport_get :: "string \<Rightarrow> outcome"

text \<open>\<open>ToString\<close>, as template literals and \<open>parseFloat\<close> apply it.\<close>

fun join :: "string \<Rightarrow> string list \<Rightarrow> string" where
  "join sep [] = []"
| "join sep [x] = x"
| "join sep (x # y # ys) = x @ sep @ join sep (y # ys)"

fun ToString :: "(jsnum \<Rightarrow> string) \<Rightarrow> jsval \<Rightarrow> string" where
  "ToString f JUndefined = ''undefined''"
| "ToString f JNull = ''null''"
| "ToString f (JBool b) = (if b then ''true'' else ''false'')"
| "ToString f (JNum n) = f n"
| "ToString f (JStr s) = s"
| "ToString f (JArr xs) = join '','' (map (\<lambda>x. if nullish x then [] else ToString f x) xs)"
| "ToString f (JObj kvs) = ''[object Object]''"

text \<open>
  \<open>parseFloat\<close>: white space is skipped, then the longest prefix that is a decimal
  literal (\<open>StrDecimalLiteral\<close>) is read and the rest of the string is ignored; with no
  such prefix the result is \<open>NaN\<close>.
\<close>

definition isWhiteSpace :: "char \<Rightarrow> bool" where
  "isWhiteSpace c = (c \<in> set [CHR 0x09, CHR 0x0A, CHR 0x0B, CHR 0x0C, CHR 0x0D, CHR 0x20, CHR 0xA0])"

definition isDigit :: "char \<Rightarrow> bool" where
  "isDigit c = (c \<in> set ''0123456789'')"

definition digitVal :: "char \<Rightarrow> nat" where
  "digitVal c = length (takeWhile (\<lambda>d. d \<noteq> c) ''0123456789'')"

definition digitsVal :: "string \<Rightarrow> nat" where
  "digitsVal ds = foldl (\<lambda>acc c. 10 * acc + digitVal c) 0 ds"

datatype literal = LitInfinity | LitDecimal real

text \<open>\<open>ExponentPart\<close>, when one is there: its sign, its value, and what follows it.\<close>

definition scanExponent :: "string \<Rightarrow> (bool \<times> nat) \<times> string" where
  "scanExponent s =
     (case s of
        [] \<Rightarrow> ((False, 0), s)
      | c # t \<Rightarrow>
          if c = CHR ''e'' \<or> c = CHR ''E'' then
            let (neg, u) =
                  (case t of
                     [] \<Rightarrow> (False, t)
                   | d # u' \<Rightarrow>
                       if d = CHR ''-'' then (True, u')
                       else if d = CHR ''+'' then (False, u')
                       else (False, t));
                ds = takeWhile isDigit u
            in if ds = [] then ((False, 0), s)
               else ((neg, digitsVal ds), dropWhile isDigit u)
          else ((False, 0), s))"

definition StrUnsignedDecimalLiteral :: "string \<Rightarrow> (literal \<times> string) option" where
  "StrUnsignedDecimalLiteral s =
     (if take 8 s = ''Infinity'' then Some (LitInfinity, drop 8 s)
      else
        let ip = takeWhile isDigit s;
            r1 = dropWhile isDigit s;
            (fp, r2) =
              (case r1 of
                 [] \<Rightarrow> ([], r1)
               | c # t \<Rightarrow>
                   if c = CHR ''.'' then (takeWhile isDigit t, dropWhile isDigit t)
                   else ([], r1))
        in if ip = [] \<and> fp = [] then None
           else
             let ((neg, ex), r3) = scanExponent r2;
                 m = real (digitsVal ip) + real (digitsVal fp) / 10 ^ length fp
             in Some (LitDecimal (if neg then m / 10 ^ ex else m * 10 ^ ex), r3))"

definition StrDecimalLiteral :: "string \<Rightarrow> (bool \<times> literal \<times> string) option" where
  "StrDecimalLiteral s =
     (case s of
        [] \<Rightarrow> None
      | c # t \<Rightarrow>
          if c = CHR ''-'' then map_option (\<lambda>(l, r). (True, l, r)) (StrUnsignedDecimalLiteral t)
          else if c = CHR ''+'' then map_option (\<lambda>(l, r). (False, l, r)) (StrUnsignedDecimalLiteral t)
          else map_option (\<lambda>(l, r). (False, l, r)) (StrUnsignedDecimalLiteral s))"

definition parseFloatStr :: "(real \<Rightarrow> jsnum) \<Rightarrow> string \<Rightarrow> jsnum" where
  "parseFloatStr r s =
     (case StrDecimalLiteral (dropWhile isWhiteSpace s) of
        None \<Rightarrow> NaN
      | Some (neg, LitInfinity, rest) \<Rightarrow> (if neg then NInf else PInf)
      | Some (neg, LitDecimal m, rest) \<Rightarrow> r (if neg then - m else m))"

definition parseFloat :: "env \<Rightarrow> jsval \<Rightarrow> jsnum" where
  "parseFloat E v = parseFloatStr (rnd E) (ToString (numToString E) v)"

text \<open>\<open>a < b\<close> on numbers: every comparison with \<open>NaN\<close> is false.\<close>

fun js_lt :: "jsnum \<Rightarrow> jsnum \<Rightarrow> bool" where
  "js_lt NaN b = False"
| "js_lt a NaN = False"
| "js_lt PInf b = False"
| "js_lt a NInf = False"
| "js_lt NInf b = True"
| "js_lt a PInf = True"
| "js_lt (Fin x) (Fin y) = (x < y)"

definition js_gt :: "jsnum \<Rightarrow> jsnum \<Rightarrow> bool" where
  "js_gt a b = js_lt b a"

definition isNaN :: "jsnum \<Rightarrow> bool" where
  "isNaN n = (n = NaN)"


section \<open>The network operations (backendApi.js)\<close>

text \<open>Each request is appended to the log of calls and answered by the transport.\<close>

definition api_post :: "env \<Rightarrow> string \<Rightarrow> jsval \<Rightarrow> call list \<Rightarrow> outcome \<times> call list" where
  "api_post E url payload calls = (transport_post E url payload, calls @ [Post url payload])"

definition api_get :: "env \<Rightarrow> string \<Rightarrow> call list \<Rightarrow> outcome \<times> call list" where
  "api_get E url calls = (transport_get E url, calls @ [Get url])"

text \<open>
  The envelope \<open>{success, data, error}\<close> of every operation; its field \<open>error\<close> is
  \<open>op_error\<close> here, \<open>None\<close> for \<open>null\<close>.
\<close>

record envelope =
  success :: bool
  data :: jsval
  op_error :: "string option"

definition storeWeatherData ::
    "env \<Rightarrow> jsval \<Rightarrow> jsval \<Rightarrow> string \<Rightarrow> string \<Rightarrow> call list \<Rightarrow> envelope \<times> call list" where
  "storeWeatherData E latitude longitude startDate endDate calls =
     (let (result, calls') =
            api_post E ''/weather/store-weather-data''
              (JObj [(''latitude'', latitude), (''longitude'', longitude),
                     (''start_date'', JStr startDate), (''end_date'', JStr endDate)]) calls
      in case result of
           Resolved res \<Rightarrow>
             (\<lparr> success = True, data = body res, op_error = None \<rparr>, calls')
         | Rejected err \<Rightarrow>
             let errorMessage =
                   (case response err of
                      Some r \<Rightarrow>
                        ''API Error: '' @ showNat (status r) @ '' - '' @
                          ToString (numToString E)
                            (js_or (js_prop (body r) ''error'') (JStr (statusText r)))
                    | None \<Rightarrow>
                        if request err then ''Network error: Unable to reach backend service''
                        else (case message err of
                                Some m \<Rightarrow> if m \<noteq> [] then m else ''Unknown error occurred''
                              | None \<Rightarrow> ''Unknown error occurred''))
             in (\<lparr> success = False, data = JNull, op_error = Some errorMessage \<rparr>, calls'))"

definition getWeatherFileContent :: "env \<Rightarrow> jsval \<Rightarrow> call list \<Rightarrow> envelope \<times> call list" where
  "getWeatherFileContent E filename calls =
     (let (result, calls') =
            api_get E (''/weather/weather-file-content/'' @ ToString (numToString E) filename) calls
      in case result of
           Resolved res \<Rightarrow>
             (\<lparr> success = True, data = body res, op_error = None \<rparr>, calls')
         | Rejected err \<Rightarrow>
             let errorMessage =
                   (case response err of
                      Some r \<Rightarrow>
                        ''API Error: '' @ showNat (status r) @ '' - '' @
                          ToString (numToString E)
                            (js_or (js_prop (body r) ''error'') (JStr (statusText r)))
                    | None \<Rightarrow>
                        if request err then ''Network error: Unable to reach backend service''
                        else (case message err of
                                Some m \<Rightarrow> if m \<noteq> [] then m else ''Unknown error occurred''
                              | None \<Rightarrow> ''Unknown error occurred''))
             in (\<lparr> success = False, data = JNull, op_error = Some errorMessage \<rparr>, calls'))"


section \<open>The validator (validation.js)\<close>

record validation =
  isValid :: bool
  error :: "string option"

definition validateLatitude :: "env \<Rightarrow> jsval \<Rightarrow> validation" where
  "validateLatitude E latitude =
     (let lat = parseFloat E latitude in
      if isNaN lat then
        \<lparr> isValid = False, error = Some ''Latitude must be a valid number'' \<rparr>
      else if js_lt lat (Fin (- 90)) \<or> js_gt lat (Fin 90) then
        \<lparr> isValid = False, error = Some ''Latitude must be between -90 and 90 degrees'' \<rparr>
      else \<lparr> isValid = True, error = None \<rparr>)"

definition validateLongitude :: "env \<Rightarrow> jsval \<Rightarrow> validation" where
  "validateLongitude E longitude =
     (let lng = parseFloat E longitude in
      if isNaN lng then
        \<lparr> isValid = False, error = Some ''Longitude must be a valid number'' \<rparr>
      else if js_lt lng (Fin (- 180)) \<or> js_gt lng (Fin 180) then
        \<lparr> isValid = False, error = Some ''Longitude must be between -180 and 180 degrees'' \<rparr>
      else \<lparr> isValid = True, error = None \<rparr>)"

text \<open>
  A \<open>Date\<close> is its time value, the milliseconds since the epoch; a date the picker has
  not set is \<open>null\<close>, here \<open>None\<close> (an invalid \<open>Date\<close>, which the picker never gives, is left
  out). The difference of two time values is exact in doubles; its quotient by the
  milliseconds of a day and \<open>Math.ceil\<close> are taken exactly here, which decides \<open>diffDays > 730\<close>
  as the doubles do.
\<close>

definition validateDateRange :: "env \<Rightarrow> int option \<Rightarrow> int option \<Rightarrow> validation" where
  "validateDateRange E startDate endDate =
     (case (startDate, endDate) of
        (Some s, Some e) \<Rightarrow>
          if s > e then
            \<lparr> isValid = False, error = Some ''Start date must be before or equal to end date'' \<rparr>
          else if e > today E then
            \<lparr> isValid = False, error = Some ''End date cannot be in the future'' \<rparr>
          else
            let diffTime = \<bar>e - s\<bar>;
                diffDays = \<lceil>real_of_int diffTime / (1000 * 60 * 60 * 24)\<rceil>
            in if diffDays > 730 then
                 \<lparr> isValid = False, error = Some ''Date range cannot exceed 2 years'' \<rparr>
               else \<lparr> isValid = True, error = None \<rparr>
      | _ \<Rightarrow> \<lparr> isValid = False, error = Some ''Both start and end dates are required'' \<rparr>)"

record form_data =
  latitude :: jsval
  longitude :: jsval
  startDate :: "int option"
  endDate :: "int option"

definition validateFormInputs :: "env \<Rightarrow> form_data \<Rightarrow> validation" where
  "validateFormInputs E formData =
     (let latValidation = validateLatitude E (latitude formData) in
      if \<not> isValid latValidation then latValidation
      else
        let lngValidation = validateLongitude E (longitude formData) in
        if \<not> isValid lngValidation then lngValidation
        else
          let dateValidation = validateDateRange E (startDate formData) (endDate formData) in
          if \<not> isValid dateValidation then dateValidation
          else \<lparr> isValid = True, error = None \<rparr>)"

section \<open>The orchestrator (WeatherDashboard, WeatherForm)\<close>

text \<open>What \<open>setLastQuery\<close> stores; the fields carry the prefix \<open>q_\<close> here.\<close>

record query =
  q_latitude :: jsval
  q_longitude :: jsval
  q_startDate :: string
  q_endDate :: string
  q_location :: string
  q_filename :: jsval

text \<open>The state of the dashboard; its \<open>error\<close> is \<open>ui_error\<close> here.\<close>

record dashboard =
  loading :: bool
  weatherData :: jsval
  chartData :: "chart option"
  tableData :: "row list"
  ui_error :: "string option"
  lastQuery :: "query option"

text \<open>\<open>date.toISOString().split('T')[0]\<close>.\<close>

definition isoDay :: "env \<Rightarrow> int \<Rightarrow> string" where
  "isoDay E t = takeWhile (\<lambda>c. c \<noteq> CHR ''T'') (toISOString E t)"

text \<open>The \<open>catch\<close> branch of \<open>handleFormSubmit\<close>.\<close>

definition unexpected :: "dashboard \<Rightarrow> dashboard" where
  "unexpected st = st\<lparr> ui_error := Some ''An unexpected error occurred while fetching weather data'' \<rparr>"

text \<open>
  \<open>handleFormSubmit\<close>, one submission from start to end. What throws inside the \<open>try\<close>
  ends in the \<open>catch\<close> branch with the state as set so far: \<open>toISOString\<close> on a date that
  is \<open>null\<close>, \<open>.filename\<close> on a body that is \<open>null\<close> or \<open>undefined\<close>, \<open>dates.map\<close> in the
  table transform, and \<open>toFixed\<close> on a coordinate that is no number.
\<close>

definition handleFormSubmit ::
    "env \<Rightarrow> form_data \<Rightarrow> dashboard \<Rightarrow> call list \<Rightarrow> dashboard \<times> call list" where
  "handleFormSubmit E formData st calls =
     (let st1 = st\<lparr> loading := True, ui_error := None \<rparr>;
          (st2, calls2) =
            (case (startDate formData, endDate formData) of
               (Some s, Some e) \<Rightarrow>
                 let startDateStr = isoDay E s;
                     endDateStr = isoDay E e;
                     (storeResult, calls1) =
                       storeWeatherData E (latitude formData) (longitude formData)
                         startDateStr endDateStr calls
                 in if success storeResult then
                      if nullish (data storeResult) then (unexpected st1, calls1)
                      else
                        let filename = js_prop (data storeResult) ''filename'';
                            (contentResult, calls2) = getWeatherFileContent E filename calls1
                        in if success contentResult then
                             let st3 = st1\<lparr> weatherData := data contentResult,
                                            chartData := transformDataForChart (data contentResult) \<rparr>
                             in case transformDataForTable (data contentResult) of
                                  Inl err \<Rightarrow> (unexpected st3, calls2)
                                | Inr rows \<Rightarrow>
                                    let st4 = st3\<lparr> tableData := rows \<rparr>
                                    in (case (latitude formData, longitude formData) of
                                          (JNum lat, JNum lng) \<Rightarrow>
                                            (st4\<lparr> lastQuery := Some
                                                 \<lparr> q_latitude = latitude formData,
                                                   q_longitude = longitude formData,
                                                   q_startDate = startDateStr,
                                                   q_endDate = endDateStr,
                                                   q_location = toFixed E 4 lat @ '', '' @ toFixed E 4 lng,
                                                   q_filename = filename \<rparr> \<rparr>, calls2)
                                        | _ \<Rightarrow> (unexpected st4, calls2))
                           else
                             (st1\<lparr> ui_error := op_error contentResult,
                                   weatherData := JNull,
                                   chartData := None,
                                   tableData := [] \<rparr>, calls2)
                    else
                      (st1\<lparr> ui_error := op_error storeResult,
                            weatherData := JNull,
                            chartData := None,
                            tableData := [] \<rparr>, calls1)
             | _ \<Rightarrow> (unexpected st1, calls))
      in (st2\<lparr> loading := False \<rparr>, calls2))"

text \<open>
  The form and its \<open>handleSubmit\<close>; \<open>onSubmit\<close> is \<open>handleFormSubmit\<close> of the dashboard
  that renders the form.
\<close>

record form =
  formData :: form_data
  errors :: "(string \<times> string option) list"

definition handleSubmit ::
    "env \<Rightarrow> form \<Rightarrow> dashboard \<Rightarrow> call list \<Rightarrow> form \<times> dashboard \<times> call list" where
  "handleSubmit E f st calls =
     (let validation = validateFormInputs E (formData f) in
      if \<not> isValid validation then
        (f\<lparr> errors := [(''general'', error validation)] \<rparr>, st, calls)
      else
        let (st', calls') =
              handleFormSubmit E
                \<lparr> latitude = JNum (parseFloat E (latitude (formData f))),
                  longitude = JNum (parseFloat E (longitude (formData f))),
                  startDate = startDate (formData f),
                  endDate = endDate (formData f) \<rparr> st calls
        in (f\<lparr> errors := [] \<rparr>, st', calls'))"

section \<open>Notions the properties are stated with\<close>

text \<open>
  A number, as \<open>typeof v === 'number'\<close> tells it, and a number or \<open>null\<close>, the elements
  of a series as JSON carries it; the six series of a row with the keys of \<open>daily\<close> they
  are read from; and a series of \<open>n\<close> numbers.
\<close>

fun is_num :: "jsval \<Rightarrow> bool" where
  "is_num (JNum n) = True"
| "is_num v = False"

definition is_num_or_null :: "jsval \<Rightarrow> bool" where
  "is_num_or_null v = (is_num v \<or> v = JNull)"

definition series :: "(string \<times> (row \<Rightarrow> jsval)) list" where
  "series =
     [(''temperature_2m_max'', tempMax),
      (''temperature_2m_min'', tempMin),
      (''temperature_2m_mean'', tempMean),
      (''apparent_temperature_max'', apparentTempMax),
      (''apparent_temperature_min'', apparentTempMin),
      (''apparent_temperature_mean'', apparentTempMean)]"

definition numeric_series :: "jsval \<Rightarrow> nat \<Rightarrow> bool" where
  "numeric_series v n = (case v of JArr xs \<Rightarrow> length xs = n \<and> list_all is_num xs | _ \<Rightarrow> False)"

text \<open>
  The keys of \<open>daily\<close> behind the three datasets of the chart, in their order.
\<close>

definition chart_keys :: "string list" where
  "chart_keys = [''temperature_2m_max'', ''temperature_2m_min'', ''temperature_2m_mean'']"

text \<open>
  The milliseconds of a day, and \<open>diffDays\<close> as \<open>validateDateRange\<close> computes it.
\<close>

definition day_ms :: int where
  "day_ms = 1000 * 60 * 60 * 24"

definition diffDays :: "int \<Rightarrow> int \<Rightarrow> int" where
  "diffDays s e = \<lceil>real_of_int \<bar>e - s\<bar> / real_of_int day_ms\<rceil>"

text \<open>The three-way rule in the spec's words.\<close>

datatype transport_error =
    ServerError nat string
  | Unreachable
  | RequestConstructionError "string option"

definition classify :: "env \<Rightarrow> axios_error \<Rightarrow> transport_error" where
  "classify E err =
     (case response err of
        Some r \<Rightarrow> ServerError (status r)
          (ToString (numToString E) (js_or (js_prop (body r) ''error'') (JStr (statusText r))))
      | None \<Rightarrow> if request err then Unreachable else RequestConstructionError (message err))"

fun error_text :: "transport_error \<Rightarrow> string" where
  "error_text (ServerError st msg) = ''API Error: '' @ showNat st @ '' - '' @ msg"
| "error_text Unreachable = ''Network error: Unable to reach backend service''"
| "error_text (RequestConstructionError (Some m)) = (if m \<noteq> [] then m else ''Unknown error occurred'')"
| "error_text (RequestConstructionError None) = ''Unknown error occurred''"

text \<open>
  The body \<open>storeWeatherData\<close> posts, and the requests of a log that are reads.
\<close>

definition store_payload :: "jsval \<Rightarrow> jsval \<Rightarrow> string \<Rightarrow> string \<Rightarrow> jsval" where
  "store_payload lat lng s e =
     JObj [(''latitude'', lat), (''longitude'', lng), (''start_date'', JStr s), (''end_date'', JStr e)]"

fun is_get :: "call \<Rightarrow> bool" where
  "is_get (Get url) = True"
| "is_get (Post url payload) = False"

text \<open>The invariant of the envelope in the spec's words, and the part of it that holds of every envelope.\<close>

definition OperationResult_invariant :: "envelope \<Rightarrow> bool" where
  "OperationResult_invariant r =
     ((success r \<longleftrightarrow> data r \<noteq> JNull \<and> op_error r = None) \<and>
      (\<not> success r \<longleftrightarrow> data r = JNull \<and> op_error r \<noteq> None))"

definition envelope_ok :: "envelope \<Rightarrow> bool" where
  "envelope_ok r =
     ((success r \<longleftrightarrow> op_error r = None) \<and>
      (\<not> success r \<longleftrightarrow> data r = JNull \<and> op_error r \<noteq> None))"

section \<open>Concrete inputs\<close>

text \<open>
  A host whose store request is answered with status 500 and whose read gets no answer;
  the same host with a store that answers with the body \<open>null\<close>, and with a store that
  succeeds while the read still fails.
\<close>

definition env0 :: env where
  "env0 =
     \<lparr> rnd = Fin,
       numToString = (\<lambda>n. ''0''),
       toFixed = (\<lambda>d n. ''0.0000''),
       toISOString = (\<lambda>t. ''2023-01-01T00:00:00.000Z''),
       today = 1700000000000,
       transport_post = (\<lambda>url payload. Rejected
          \<lparr> response = Some \<lparr> status = 500, statusText = ''Internal Server Error'',
                               body = JObj [(''error'', JStr ''boom'')] \<rparr>,
            request = True,
            message = Some ''Request failed with status code 500'' \<rparr>),
       transport_get = (\<lambda>url. Rejected \<lparr> response = None, request = True, message = Some ''Network Error'' \<rparr>) \<rparr>"

definition env_null_body :: env where
  "env_null_body = env0\<lparr> transport_post := (\<lambda>url payload.
      Resolved \<lparr> status = 200, statusText = ''OK'', body = JNull \<rparr>) \<rparr>"

definition env_fetch_fails :: env where
  "env_fetch_fails = env0\<lparr> transport_post := (\<lambda>url payload.
      Resolved \<lparr> status = 200, statusText = ''OK'',
                 body = JObj [(''message'', JStr ''stored''), (''filename'', JStr ''w.json'')] \<rparr>) \<rparr>"

text \<open>
  Payloads: a short series, a series that holds \<open>null\<close>, a well-formed response of two
  days, an empty \<open>daily\<close>, and a response without the minimum series.
\<close>

definition example_short :: jsval where
  "example_short =
     JObj [(''daily'', JObj [(''time'', JArr [JStr ''2023-01-01'', JStr ''2023-01-02'']),
                            (''temperature_2m_max'', JArr [JNum (Fin 5.2)])])]"

definition example_null :: jsval where
  "example_null =
     JObj [(''daily'', JObj [(''time'', JArr [JStr ''2023-01-01'']),
                            (''temperature_2m_max'', JArr [JNull])])]"

definition example_two_days :: jsval where
  "example_two_days =
     JObj [(''latitude'', JNum (Fin 40.7128)),
           (''daily'', JObj [(''time'', JArr [JStr ''2023-01-01'', JStr ''2023-01-02'']),
                            (''temperature_2m_max'', JArr [JNum (Fin 5.2), JNum (Fin 6)]),
                            (''temperature_2m_min'', JArr [JNum (Fin (-1.5)), JNum (Fin 0)]),
                            (''temperature_2m_mean'', JArr [JNum (Fin 2.1), JNum (Fin 3)]),
                            (''apparent_temperature_max'', JArr [JNum (Fin 3.3), JNum (Fin 4)]),
                            (''apparent_temperature_min'', JArr [JNum (Fin (-4)), JNum (Fin (-2.25))]),
                            (''apparent_temperature_mean'', JArr [JNum (Fin 0), JNum (Fin 1)])])]"

definition example_empty_daily :: jsval where
  "example_empty_daily = JObj [(''daily'', JObj [])]"

definition example_chart :: jsval where
  "example_chart =
     JObj [(''daily'', JObj [(''time'', JArr [JStr ''2023-01-01'']),
                            (''temperature_2m_max'', JArr [JNum (Fin 5.2)]),
                            (''temperature_2m_mean'', JArr [JNum (Fin 2)])])]"

text \<open>
  Dashboard states (fresh, and showing an earlier result), a query, and a form whose
  latitude is 200.
\<close>

definition idle :: dashboard where
  "idle = \<lparr> loading = False, weatherData = JNull, chartData = None, tableData = [],
            ui_error = None, lastQuery = None \<rparr>"

definition shown :: dashboard where
  "shown = \<lparr> loading = False,
              weatherData = JObj [(''daily'', JObj [(''time'', JArr [JStr ''2022-12-31''])])],
              chartData = transformDataForChart (JObj [(''daily'', JObj [(''time'', JArr [JStr ''2022-12-31''])])]),
              tableData = [\<lparr> row_id = 1, date = JStr ''2022-12-31'', tempMax = JStr ''N/A'',
                            tempMin = JStr ''N/A'', tempMean = JStr ''N/A'',
                            apparentTempMax = JStr ''N/A'', apparentTempMin = JStr ''N/A'',
                            apparentTempMean = JStr ''N/A'' \<rparr>],
              ui_error = None,
              lastQuery = None \<rparr>"

definition query0 :: form_data where
  "query0 = \<lparr> latitude = JNum (Fin 40.7128), longitude = JNum (Fin (- 74.006)),
               startDate = Some 1672531200000, endDate = Some 1675123200000 \<rparr>"

definition form200 :: form where
  "form200 = \<lparr> formData = \<lparr> latitude = JStr ''200'', longitude = JStr ''-74.0060'',
                                startDate = Some 1672531200000, endDate = Some 1675123200000 \<rparr>,
                 errors = [] \<rparr>"

section \<open>Properties of the transformer\<close>

lemma is_num_not_nullish: "is_num v \<Longrightarrow> \<not> nullish v"
  by (cases v) (simp_all add: nullish_def)

lemma is_num_not_sentinel: "is_num v \<Longrightarrow> v \<noteq> JStr s"
  by (cases v) simp_all

lemma cell_absent: "nullish (js_prop daily key) \<Longrightarrow> cell daily key i = JStr ''N/A''"
  by (auto simp: cell_def nullish_def coalesce_def)

text \<open>
  The cell of an array in general: the sentinel stands for a position past the end and
  for an element that is \<open>null\<close> or \<open>undefined\<close>.
\<close>

lemma cell_array:
  "js_prop daily key = JArr xs \<Longrightarrow>
   cell daily key i = (if i < length xs \<and> \<not> nullish (xs ! i) then xs ! i else JStr ''N/A'')"
  by (simp add: cell_def coalesce_def nullish_def)

lemma cell_numeric:
  assumes "js_prop daily key = JArr xs" and "list_all is_num xs"
  shows "cell daily key i = (if i < length xs then xs ! i else JStr ''N/A'')"
  using assms by (simp add: cell_array list_all_length is_num_not_nullish)

lemma cell_num_or_null:
  assumes "js_prop daily key = JArr xs" and "list_all is_num_or_null xs"
  shows "cell daily key i = (if i < length xs \<and> xs ! i \<noteq> JNull then xs ! i else JStr ''N/A'')"
proof (cases "i < length xs")
  case True
  with assms(2) have "is_num (xs ! i) \<or> xs ! i = JNull"
    by (simp add: list_all_length is_num_or_null_def)
  then have "nullish (xs ! i) = (xs ! i = JNull)"
    by (auto simp: is_num_not_nullish nullish_def)
  with True show ?thesis by (simp add: cell_array [OF assms(1)])
next
  case False
  then show ?thesis by (simp add: cell_array [OF assms(1)])
qed

lemma table_rows:
  assumes "truthy raw" and "js_prop raw ''daily'' = daily" and "truthy daily"
    and "js_prop daily ''time'' = JArr dates"
  shows "transformDataForTable raw =
    Inr (map (\<lambda>(index, date).
                      \<lparr> row_id = index + 1,
                        date = date,
                        tempMax = cell daily ''temperature_2m_max'' index,
                        tempMin = cell daily ''temperature_2m_min'' index,
                        tempMean = cell daily ''temperature_2m_mean'' index,
                        apparentTempMax = cell daily ''apparent_temperature_max'' index,
                        apparentTempMin = cell daily ''apparent_temperature_min'' index,
                        apparentTempMean = cell daily ''apparent_temperature_mean'' index \<rparr>)
                    (enumerate 0 dates))"
  using assms by (simp add: transformDataForTable_def js_or_def)

lemma table_row_nth:
  assumes "truthy raw" and "js_prop raw ''daily'' = daily" and "truthy daily"
    and "js_prop daily ''time'' = JArr dates" and "i < length dates"
  shows "\<exists>rows. transformDataForTable raw = Inr rows \<and> length rows = length dates \<and>
     rows ! i = \<lparr> row_id = i + 1,
                        date = dates ! i,
                        tempMax = cell daily ''temperature_2m_max'' i,
                        tempMin = cell daily ''temperature_2m_min'' i,
                        tempMean = cell daily ''temperature_2m_mean'' i,
                        apparentTempMax = cell daily ''apparent_temperature_max'' i,
                        apparentTempMin = cell daily ''apparent_temperature_min'' i,
                        apparentTempMean = cell daily ''apparent_temperature_mean'' i \<rparr>"
  using assms by (simp add: table_rows nth_enumerate_eq)

lemma column_round_trip:
  assumes "numeric_series (js_prop daily key) (length dates)"
  shows "js_prop daily key = JArr (map (\<lambda>x. cell daily key (fst x)) (enumerate 0 dates))"
proof -
  from assms obtain xs where xs: "js_prop daily key = JArr xs" "length xs = length dates"
    "list_all is_num xs"
    by (auto simp: numeric_series_def split: jsval.splits)
  have "map (\<lambda>x. cell daily key (fst x)) (enumerate 0 dates) = xs"
    by (rule nth_equalityI) (simp_all add: xs(2) nth_enumerate_eq cell_numeric [OF xs(1,3)])
  with xs(1) show ?thesis by simp
qed

text \<open>
  Claim C1. For a response with a \<open>daily\<close> object whose \<open>time\<close> holds \<open>n\<close> dates and whose
  six series are arrays of \<open>n\<close> numbers each, \<open>transformDataForTable\<close> returns \<open>n\<close> rows; their
  ids are \<open>1..n\<close> in order, their dates are \<open>daily.time\<close>, and each of the six columns is
  the source array itself, element for element, with nothing transformed or rounded.
\<close>

theorem C1_table_round_trip:
  assumes "truthy raw" and "js_prop raw ''daily'' = daily" and "truthy daily"
    and "js_prop daily ''time'' = JArr dates"
    and "\<forall>(key, field) \<in> set series. numeric_series (js_prop daily key) (length dates)"
  shows "\<exists>rows. transformDataForTable raw = Inr rows \<and> length rows = length dates \<and>
     map row_id rows = [1 ..< Suc (length dates)] \<and> map date rows = dates \<and>
     (\<forall>(key, field) \<in> set series. js_prop daily key = JArr (map field rows))"
proof -
  let ?rows = "map (\<lambda>(index, date).
                      \<lparr> row_id = index + 1,
                        date = date,
                        tempMax = cell daily ''temperature_2m_max'' index,
                        tempMin = cell daily ''temperature_2m_min'' index,
                        tempMean = cell daily ''temperature_2m_mean'' index,
                        apparentTempMax = cell daily ''apparent_temperature_max'' index,
                        apparentTempMin = cell daily ''apparent_temperature_min'' index,
                        apparentTempMean = cell daily ''apparent_temperature_mean'' index \<rparr>)
                    (enumerate 0 dates)"
  have r: "transformDataForTable raw = Inr ?rows"
    using assms(1-4) by (rule table_rows)
  have len: "length ?rows = length dates" by simp
  have "map row_id ?rows = map (Suc \<circ> fst) (enumerate 0 dates)"
    by (simp add: split_def comp_def)
  also have "\<dots> = map Suc (map fst (enumerate 0 dates))"
    by (simp only: map_map)
  also have "\<dots> = [1 ..< Suc (length dates)]"
    by (simp only: map_fst_enumerate map_Suc_upt add_0 One_nat_def)
  finally have ids: "map row_id ?rows = [1 ..< Suc (length dates)]" .
  have ds: "map date ?rows = dates"
    by (rule nth_equalityI) (simp_all add: nth_enumerate_eq)
  have cols: "\<forall>(key, field) \<in> set series. js_prop daily key = JArr (map field ?rows)"
    using assms(5)
    by (auto simp: series_def split_def comp_def intro: column_round_trip)
  from r len ids ds cols show ?thesis by blast
qed

text \<open>
  The theorem at a response of two days: two rows, ids 1 and 2, the columns as sent.
\<close>

theorem C1_witness:
  "\<exists>rows. transformDataForTable example_two_days = Inr rows \<and> length rows = 2 \<and>
     map row_id rows = [1, 2] \<and> map date rows = [JStr ''2023-01-01'', JStr ''2023-01-02''] \<and>
     map tempMax rows = [JNum (Fin 5.2), JNum (Fin 6)] \<and>
     map apparentTempMin rows = [JNum (Fin (-4)), JNum (Fin (-2.25))]"
  using C1_table_round_trip [of example_two_days "js_prop example_two_days ''daily''"
     "[JStr ''2023-01-01'', JStr ''2023-01-02'']"]
  by (auto simp: example_two_days_def series_def numeric_series_def upt_rec)

text \<open>
  Claim C2, as the code has it. For a response with a \<open>daily\<close> field and an index \<open>i\<close> of
  \<open>daily.time\<close>, row \<open>i\<close> has id \<open>i + 1\<close> and the date at \<open>i\<close>, and each of its six fields is
  decided by its own series alone: the sentinel \<open>N/A\<close> when the series is absent, and for a
  series of numbers and \<open>null\<close>s the element at \<open>i\<close> when it is a number, and the sentinel
  exactly when the series is shorter than \<open>i + 1\<close> or holds \<open>null\<close> at \<open>i\<close>.
\<close>

theorem C2_cells_independent:
  assumes "truthy raw" and "js_prop raw ''daily'' = daily" and "truthy daily"
    and "js_prop daily ''time'' = JArr dates" and "i < length dates"
  shows "\<exists>rows. transformDataForTable raw = Inr rows \<and> length rows = length dates \<and>
     row_id (rows ! i) = i + 1 \<and> date (rows ! i) = dates ! i \<and>
     (\<forall>(key, field) \<in> set series.
        (nullish (js_prop daily key) \<longrightarrow> field (rows ! i) = JStr ''N/A'') \<and>
        (\<forall>xs. js_prop daily key = JArr xs \<and> list_all is_num_or_null xs \<longrightarrow>
           field (rows ! i) = (if i < length xs \<and> xs ! i \<noteq> JNull then xs ! i else JStr ''N/A'') \<and>
           (field (rows ! i) = JStr ''N/A'' \<longleftrightarrow>
              length xs \<le> i \<or> (i < length xs \<and> xs ! i = JNull))))"
proof -
  obtain rows where r: "transformDataForTable raw = Inr rows" "length rows = length dates"
     "rows ! i = \<lparr> row_id = i + 1,
                        date = dates ! i,
                        tempMax = cell daily ''temperature_2m_max'' i,
                        tempMin = cell daily ''temperature_2m_min'' i,
                        tempMean = cell daily ''temperature_2m_mean'' i,
                        apparentTempMax = cell daily ''apparent_temperature_max'' i,
                        apparentTempMin = cell daily ''apparent_temperature_min'' i,
                        apparentTempMean = cell daily ''apparent_temperature_mean'' i \<rparr>"
    using table_row_nth [OF assms] by blast
  have sem: "(nullish (js_prop daily key) \<longrightarrow> cell daily key i = JStr ''N/A'') \<and>
        (\<forall>xs. js_prop daily key = JArr xs \<and> list_all is_num_or_null xs \<longrightarrow>
           cell daily key i = (if i < length xs \<and> xs ! i \<noteq> JNull then xs ! i else JStr ''N/A'') \<and>
           (cell daily key i = JStr ''N/A'' \<longleftrightarrow>
              length xs \<le> i \<or> (i < length xs \<and> xs ! i = JNull)))" for key
  proof (intro conjI impI allI)
    assume "nullish (js_prop daily key)"
    then show "cell daily key i = JStr ''N/A''" by (rule cell_absent)
  next
    fix xs assume a: "js_prop daily key = JArr xs \<and> list_all is_num_or_null xs"
    then have c: "cell daily key i =
        (if i < length xs \<and> xs ! i \<noteq> JNull then xs ! i else JStr ''N/A'')"
      by (simp add: cell_num_or_null)
    show "cell daily key i = (if i < length xs \<and> xs ! i \<noteq> JNull then xs ! i else JStr ''N/A'')"
      by (rule c)
    show "(cell daily key i = JStr ''N/A'') = (length xs \<le> i \<or> (i < length xs \<and> xs ! i = JNull))"
    proof (cases "i < length xs \<and> xs ! i \<noteq> JNull")
      case True
      with a have "is_num (xs ! i)" by (auto simp: list_all_length is_num_or_null_def)
      then have "xs ! i \<noteq> JStr ''N/A''" by (rule is_num_not_sentinel)
      with True c show ?thesis by simp
    next
      case False
      with c show ?thesis by auto
    qed
  qed
  have "\<forall>(key, field) \<in> set series.
        (nullish (js_prop daily key) \<longrightarrow> field (rows ! i) = JStr ''N/A'') \<and>
        (\<forall>xs. js_prop daily key = JArr xs \<and> list_all is_num_or_null xs \<longrightarrow>
           field (rows ! i) = (if i < length xs \<and> xs ! i \<noteq> JNull then xs ! i else JStr ''N/A'') \<and>
           (field (rows ! i) = JStr ''N/A'' \<longleftrightarrow>
              length xs \<le> i \<or> (i < length xs \<and> xs ! i = JNull)))"
    unfolding series_def list.set ball_simps prod.case r(3) row.simps
    by (intro conjI TrueI sem [THEN conjunct1] sem [THEN conjunct2])
  with r(1,2) show ?thesis by (simp add: r(3))
qed

text \<open>
  A series that is there and long enough, and holds \<open>null\<close>: the cell is the sentinel.
\<close>

theorem C2_counterexample:
  "transformDataForTable example_null =
     Inr [\<lparr> row_id = 1, date = JStr ''2023-01-01'', tempMax = JStr ''N/A'',
            tempMin = JStr ''N/A'', tempMean = JStr ''N/A'', apparentTempMax = JStr ''N/A'',
            apparentTempMin = JStr ''N/A'', apparentTempMean = JStr ''N/A'' \<rparr>] \<and>
   js_prop (js_prop example_null ''daily'') ''temperature_2m_max'' = JArr [JNull] \<and>
   length [JNull] = 1"
  by (simp add: transformDataForTable_def example_null_def js_or_def cell_def coalesce_def
      nullish_def enumerate_eq_zip)

text \<open>
  The theorem at \<open>time = ["2023-01-01", "2023-01-02"]\<close>, \<open>temperature_2m_max = [5.2]\<close>:
  row 1 has \<open>tempMax = 5.2\<close> beside \<open>tempMin = "N/A"\<close>, and row 2 has \<open>tempMax = "N/A"\<close>.
\<close>

theorem C2_witness:
  "\<exists>rows. transformDataForTable example_short = Inr rows \<and> length rows = 2 \<and>
     row_id (rows ! 0) = 1 \<and> tempMax (rows ! 0) = JNum (Fin 5.2) \<and> tempMin (rows ! 0) = JStr ''N/A'' \<and>
     row_id (rows ! 1) = 2 \<and> tempMax (rows ! 1) = JStr ''N/A''"
  using C2_cells_independent [of example_short "JObj [(''time'', JArr [JStr ''2023-01-01'', JStr ''2023-01-02'']),
                            (''temperature_2m_max'', JArr [JNum (Fin 5.2)])]" "[JStr ''2023-01-01'', JStr ''2023-01-02'']" 0]
   C2_cells_independent [of example_short "JObj [(''time'', JArr [JStr ''2023-01-01'', JStr ''2023-01-02'']),
                            (''temperature_2m_max'', JArr [JNum (Fin 5.2)])]" "[JStr ''2023-01-01'', JStr ''2023-01-02'']" 1]
  by (auto simp: example_short_def series_def nullish_def is_num_or_null_def)

lemma js_or_array: "js_or (JArr xs) b = JArr xs"
  by (simp add: js_or_def)

lemma js_or_nullish: "nullish a \<Longrightarrow> js_or a b = b"
  by (auto simp: js_or_def nullish_def)

text \<open>
  Claim C5, as the code has it. \<open>transformDataForChart\<close> returns \<open>null\<close> iff its input is
  falsy (\<open>null\<close>) or has no truthy \<open>daily\<close>; otherwise the labels are \<open>daily.time\<close> (the empty
  array when absent) and there are exactly three datasets, in this order and with these
  labels: \<open>Max Temperature (\<degree>C)\<close>, \<open>Min Temperature (\<degree>C)\<close>, \<open>Mean Temperature (\<degree>C)\<close>, each
  holding the series of the same name, or the empty array when that series is absent.
\<close>

theorem C5_chart_series:
  "(transformDataForChart raw = None \<longleftrightarrow>
      \<not> truthy raw \<or> \<not> truthy (js_prop raw ''daily'')) \<and>
   (transformDataForChart JNull = None) \<and>
   (\<forall>kvs. map_of kvs ''daily'' = None \<longrightarrow> transformDataForChart (JObj kvs) = None) \<and>
   (truthy raw \<and> truthy (js_prop raw ''daily'') \<longrightarrow>
      (\<exists>c. transformDataForChart raw = Some c \<and>
         labels c = js_or (js_prop (js_prop raw ''daily'') ''time'') (JArr []) \<and>
         (\<forall>ds. js_prop (js_prop raw ''daily'') ''time'' = JArr ds \<longrightarrow> labels c = JArr ds) \<and>
         (nullish (js_prop (js_prop raw ''daily'') ''time'') \<longrightarrow> labels c = JArr []) \<and>
         length (datasets c) = 3 \<and>
         map label (datasets c) =
           [''Max Temperature ('' @ [CHR 0xB0] @ ''C)'',
            ''Min Temperature ('' @ [CHR 0xB0] @ ''C)'',
            ''Mean Temperature ('' @ [CHR 0xB0] @ ''C)''] \<and>
         (\<forall>(key, d) \<in> set (zip chart_keys (datasets c)).
            ds_data d = js_or (js_prop (js_prop raw ''daily'') key) (JArr []) \<and>
            (\<forall>xs. js_prop (js_prop raw ''daily'') key = JArr xs \<longrightarrow> ds_data d = JArr xs) \<and>
            (nullish (js_prop (js_prop raw ''daily'') key) \<longrightarrow> ds_data d = JArr []))))"
  by (auto simp: transformDataForChart_def chart_keys_def Let_def js_or_array js_or_nullish)

text \<open>
  The labels carry the unit: on an empty \<open>daily\<close> the three datasets are not named
  \<open>Max Temperature\<close>, \<open>Min Temperature\<close>, \<open>Mean Temperature\<close>.
\<close>

theorem C5_counterexample:
  "map label (case transformDataForChart example_empty_daily of Some c \<Rightarrow> datasets c | None \<Rightarrow> []) =
     [''Max Temperature ('' @ [CHR 0xB0] @ ''C)'',
      ''Min Temperature ('' @ [CHR 0xB0] @ ''C)'',
      ''Mean Temperature ('' @ [CHR 0xB0] @ ''C)''] \<and>
   map label (case transformDataForChart example_empty_daily of Some c \<Rightarrow> datasets c | None \<Rightarrow> []) \<noteq>
     [''Max Temperature'', ''Min Temperature'', ''Mean Temperature'']"
  by (simp add: transformDataForChart_def example_empty_daily_def js_or_def)

text \<open>
  The theorem at \<open>null\<close>, at an object without \<open>daily\<close>, and at a response that lacks the
  minimum series: the second dataset is there, with no points.
\<close>

theorem C5_witness:
  "transformDataForChart JNull = None \<and> transformDataForChart (JObj []) = None \<and>
   (\<exists>c. transformDataForChart example_chart = Some c \<and>
      labels c = JArr [JStr ''2023-01-01''] \<and>
      map ds_data (datasets c) = [JArr [JNum (Fin 5.2)], JArr [], JArr [JNum (Fin 2)]])"
  using C5_chart_series [of JNull] C5_chart_series [of "JObj []"] C5_chart_series [of example_chart]
  by (auto simp: example_chart_def chart_keys_def js_or_def nullish_def)

section \<open>Properties of the validator\<close>

lemmas parse_defs = parseFloat_def parseFloatStr_def StrDecimalLiteral_def
  StrUnsignedDecimalLiteral_def scanExponent_def isDigit_def isWhiteSpace_def digitsVal_def
  digitVal_def

lemma validateLatitude_cases:
  "validateLatitude E v =
     (case parseFloat E v of
        NaN \<Rightarrow> \<lparr> isValid = False, error = Some ''Latitude must be a valid number'' \<rparr>
      | Fin x \<Rightarrow> if - 90 \<le> x \<and> x \<le> 90 then \<lparr> isValid = True, error = None \<rparr>
                 else \<lparr> isValid = False, error = Some ''Latitude must be between -90 and 90 degrees'' \<rparr>
      | _ \<Rightarrow> \<lparr> isValid = False, error = Some ''Latitude must be between -90 and 90 degrees'' \<rparr>)"
  by (cases "parseFloat E v") (auto simp: validateLatitude_def isNaN_def js_gt_def)

lemma validateLongitude_cases:
  "validateLongitude E v =
     (case parseFloat E v of
        NaN \<Rightarrow> \<lparr> isValid = False, error = Some ''Longitude must be a valid number'' \<rparr>
      | Fin x \<Rightarrow> if - 180 \<le> x \<and> x \<le> 180 then \<lparr> isValid = True, error = None \<rparr>
                 else \<lparr> isValid = False, error = Some ''Longitude must be between -180 and 180 degrees'' \<rparr>
      | _ \<Rightarrow> \<lparr> isValid = False, error = Some ''Longitude must be between -180 and 180 degrees'' \<rparr>)"
  by (cases "parseFloat E v") (auto simp: validateLongitude_def isNaN_def js_gt_def)

text \<open>
  Claim C4. \<open>validateLatitude\<close> succeeds iff \<open>parseFloat\<close> gives a number between -90 and
  90, \<open>validateLongitude\<close> iff it gives one between -180 and 180, the bounds included; an
  input that does not parse fails with the message of an invalid number, and every other
  failure carries the message of the range.
\<close>

theorem C4_coordinate_ranges:
  "(isValid (validateLatitude E v) \<longleftrightarrow> (\<exists>x. parseFloat E v = Fin x \<and> - 90 \<le> x \<and> x \<le> 90)) \<and>
   (isValid (validateLongitude E v) \<longleftrightarrow> (\<exists>x. parseFloat E v = Fin x \<and> - 180 \<le> x \<and> x \<le> 180)) \<and>
   (error (validateLatitude E v) = Some ''Latitude must be a valid number'' \<longleftrightarrow> parseFloat E v = NaN) \<and>
   (error (validateLongitude E v) = Some ''Longitude must be a valid number'' \<longleftrightarrow> parseFloat E v = NaN) \<and>
   (error (validateLatitude E v) = Some ''Latitude must be between -90 and 90 degrees'' \<longleftrightarrow>
      parseFloat E v \<noteq> NaN \<and> \<not> isValid (validateLatitude E v)) \<and>
   (error (validateLongitude E v) = Some ''Longitude must be between -180 and 180 degrees'' \<longleftrightarrow>
      parseFloat E v \<noteq> NaN \<and> \<not> isValid (validateLongitude E v))"
  unfolding validateLatitude_cases validateLongitude_cases
  by (cases "parseFloat E v") simp_all

text \<open>
  The theorem at the bounds, just past them, and at a string that is no number.
\<close>

theorem C4_witness:
  "isValid (validateLatitude env0 (JStr ''90'')) \<and> isValid (validateLatitude env0 (JStr ''-90'')) \<and>
   \<not> isValid (validateLatitude env0 (JStr ''90.0001'')) \<and>
   isValid (validateLongitude env0 (JStr ''180'')) \<and> isValid (validateLongitude env0 (JStr ''-180'')) \<and>
   \<not> isValid (validateLongitude env0 (JStr ''180.5'')) \<and>
   error (validateLatitude env0 (JStr ''abc'')) = Some ''Latitude must be a valid number''"
proof -
  have p: "parseFloat env0 (JStr ''90'') = Fin 90" "parseFloat env0 (JStr ''-90'') = Fin (- 90)"
    "parseFloat env0 (JStr ''90.0001'') = Fin 90.0001"
    "parseFloat env0 (JStr ''180'') = Fin 180" "parseFloat env0 (JStr ''-180'') = Fin (- 180)"
    "parseFloat env0 (JStr ''180.5'') = Fin 180.5"
    "parseFloat env0 (JStr ''abc'') = NaN"
    by (simp_all add: parse_defs env0_def)
  show ?thesis
    using C4_coordinate_ranges [of env0 "JStr ''90''"] C4_coordinate_ranges [of env0 "JStr ''-90''"]
      C4_coordinate_ranges [of env0 "JStr ''90.0001''"] C4_coordinate_ranges [of env0 "JStr ''180''"]
      C4_coordinate_ranges [of env0 "JStr ''-180''"] C4_coordinate_ranges [of env0 "JStr ''180.5''"]
      C4_coordinate_ranges [of env0 "JStr ''abc''"]
    by (simp add: p)
qed

lemma prefix_45:
  assumes "\<not> isDigit c" and "c \<noteq> CHR ''.''" and "c \<noteq> CHR ''e''" and "c \<noteq> CHR ''E''"
  shows "StrDecimalLiteral (''45'' @ c # t) = Some (False, LitDecimal 45, c # t)"
proof -
  have tk: "takeWhile isDigit (''45'' @ c # t) = ''45''" "dropWhile isDigit (''45'' @ c # t) = c # t"
    using assms(1) by (simp_all add: isDigit_def)
  have u: "StrUnsignedDecimalLiteral (''45'' @ c # t) = Some (LitDecimal 45, c # t)"
    unfolding StrUnsignedDecimalLiteral_def tk Let_def
    using assms by (simp add: scanExponent_def digitsVal_def digitVal_def)
  show ?thesis
    unfolding StrDecimalLiteral_def using u by simp
qed

text \<open>
  Claim C10. Where 45 is a double, the string \<open>45abc\<close> is not a numeral as a whole (the
  literal read from it leaves \<open>abc\<close>), yet \<open>parseFloat\<close> gives 45 and both validators accept
  it; the same holds of \<open>45\<close> followed by any text that does not continue the literal.
\<close>

theorem C10_prefix_accepted:
  assumes "rnd E 45 = Fin 45"
  shows "StrDecimalLiteral ''45abc'' = Some (False, LitDecimal 45, ''abc'') \<and>
         parseFloat E (JStr ''45abc'') = Fin 45 \<and>
         validateLatitude E (JStr ''45abc'') = \<lparr> isValid = True, error = None \<rparr> \<and>
         validateLongitude E (JStr ''45abc'') = \<lparr> isValid = True, error = None \<rparr>"
proof -
  have l: "StrDecimalLiteral ''45abc'' = Some (False, LitDecimal 45, ''abc'')"
    by (simp add: parse_defs)
  have p: "parseFloat E (JStr ''45abc'') = Fin 45"
    using assms by (simp add: parseFloat_def parseFloatStr_def l isWhiteSpace_def)
  show ?thesis
    by (simp add: l p validateLatitude_cases validateLongitude_cases)
qed

text \<open>
  The theorem on a host that rounds 45 to itself.
\<close>

theorem C10_witness:
  "rnd env0 45 = Fin 45 \<and> parseFloat env0 (JStr ''45abc'') = Fin 45 \<and>
   isValid (validateLatitude env0 (JStr ''45abc'')) \<and> isValid (validateLongitude env0 (JStr ''45abc''))"
proof -
  have h: "rnd env0 45 = Fin 45" by (simp add: env0_def)
  from C10_prefix_accepted [OF h] h show ?thesis by simp
qed

lemma diffDays_gt: "(diffDays s e > 730) = (\<bar>e - s\<bar> > 730 * day_ms)"
proof -
  define d where "d = \<bar>e - s\<bar>"
  have "(diffDays s e > 730) = (730 < real_of_int d / 86400000)"
    by (simp add: diffDays_def day_ms_def less_ceiling_iff d_def)
  also have "\<dots> = (real_of_int (730 * 86400000) < real_of_int d)"
    by (simp add: field_simps)
  also have "\<dots> = (730 * 86400000 < d)"
    by (simp only: of_int_less_iff)
  finally show ?thesis by (simp add: d_def day_ms_def)
qed

lemma validateDateRange_present:
  "validateDateRange E (Some s) (Some e) =
     (if s > e then \<lparr> isValid = False, error = Some ''Start date must be before or equal to end date'' \<rparr>
      else if e > today E then \<lparr> isValid = False, error = Some ''End date cannot be in the future'' \<rparr>
      else if diffDays s e > 730 then \<lparr> isValid = False, error = Some ''Date range cannot exceed 2 years'' \<rparr>
      else \<lparr> isValid = True, error = None \<rparr>)"
  by (simp add: validateDateRange_def diffDays_def day_ms_def Let_def)

text \<open>
  Claim C3, as the code has it. For two dates that are set, the checks run in order:
  the range is inverted iff \<open>start > end\<close>; else the end is in the future iff it is after
  today's midnight; else the range is too large iff \<open>diffDays\<close>, the ceiling of the absolute
  difference in days, exceeds 730, that is iff the difference exceeds 730 days. So with an
  end that is not in the future, 730 days apart succeeds, 731 days apart fails, and
  \<open>start = end\<close> succeeds.
\<close>

theorem C3_date_range:
  "(validateDateRange E (Some s) (Some e) =
      \<lparr> isValid = False, error = Some ''Start date must be before or equal to end date'' \<rparr>
      \<longleftrightarrow> s > e) \<and>
   (validateDateRange E (Some s) (Some e) =
      \<lparr> isValid = False, error = Some ''End date cannot be in the future'' \<rparr>
      \<longleftrightarrow> s \<le> e \<and> e > today E) \<and>
   (validateDateRange E (Some s) (Some e) =
      \<lparr> isValid = False, error = Some ''Date range cannot exceed 2 years'' \<rparr>
      \<longleftrightarrow> s \<le> e \<and> e \<le> today E \<and> diffDays s e > 730) \<and>
   (validateDateRange E (Some s) (Some e) = \<lparr> isValid = True, error = None \<rparr>
      \<longleftrightarrow> s \<le> e \<and> e \<le> today E \<and> diffDays s e \<le> 730) \<and>
   (diffDays s e > 730 \<longleftrightarrow> \<bar>e - s\<bar> > 730 * day_ms) \<and>
   (e \<le> today E \<and> e - s = 730 * day_ms \<longrightarrow> isValid (validateDateRange E (Some s) (Some e))) \<and>
   (e \<le> today E \<and> e - s = 731 * day_ms \<longrightarrow>
      validateDateRange E (Some s) (Some e) =
        \<lparr> isValid = False, error = Some ''Date range cannot exceed 2 years'' \<rparr>) \<and>
   (e \<le> today E \<longrightarrow> isValid (validateDateRange E (Some e) (Some e)))"
proof -
  have a: "diffDays e e \<le> 730" using diffDays_gt [of e e] by (simp add: day_ms_def)
  have b: "e - s = 730 * day_ms \<Longrightarrow> s \<le> e \<and> \<not> diffDays s e > 730"
    using diffDays_gt [of s e] by (simp add: day_ms_def)
  have c: "e - s = 731 * day_ms \<Longrightarrow> s \<le> e \<and> diffDays s e > 730"
    using diffDays_gt [of s e] by (simp add: day_ms_def)
  show ?thesis
    unfolding validateDateRange_present
    using a b c diffDays_gt [of s e] by auto
qed

text \<open>
  With today at the epoch: a single day that lies in the future fails; a range of 731
  days that is inverted, or that ends in the future, does not fail as too large.
\<close>

theorem C3_counterexample:
  "validateDateRange (env0\<lparr> today := 0 \<rparr>) (Some day_ms) (Some day_ms) =
     \<lparr> isValid = False, error = Some ''End date cannot be in the future'' \<rparr> \<and>
   diffDays (731 * day_ms) 0 = 731 \<and>
   validateDateRange (env0\<lparr> today := 0 \<rparr>) (Some (731 * day_ms)) (Some 0) =
     \<lparr> isValid = False, error = Some ''Start date must be before or equal to end date'' \<rparr> \<and>
   diffDays 0 (731 * day_ms) = 731 \<and>
   validateDateRange (env0\<lparr> today := 0 \<rparr>) (Some 0) (Some (731 * day_ms)) =
     \<lparr> isValid = False, error = Some ''End date cannot be in the future'' \<rparr>"
  by (simp add: validateDateRange_def diffDays_def day_ms_def env0_def)

text \<open>
  The theorem at ranges of 730 and 731 days, at a single day, and at an inverted range.
\<close>

theorem C3_witness:
  "validateDateRange env0 (Some 0) (Some (730 * day_ms)) = \<lparr> isValid = True, error = None \<rparr> \<and>
   validateDateRange env0 (Some 0) (Some (731 * day_ms)) =
     \<lparr> isValid = False, error = Some ''Date range cannot exceed 2 years'' \<rparr> \<and>
   validateDateRange env0 (Some day_ms) (Some day_ms) = \<lparr> isValid = True, error = None \<rparr> \<and>
   validateDateRange env0 (Some day_ms) (Some 0) =
     \<lparr> isValid = False, error = Some ''Start date must be before or equal to end date'' \<rparr>"
  using C3_date_range [of env0 0 "730 * day_ms"] C3_date_range [of env0 0 "731 * day_ms"]
    C3_date_range [of env0 day_ms day_ms] C3_date_range [of env0 day_ms 0]
  by (simp add: env0_def day_ms_def)

section \<open>Properties of the network operations and the orchestrator\<close>

lemma store_rejected:
  assumes "transport_post E ''/weather/store-weather-data'' (store_payload lat lng s e) = Rejected err"
  shows "storeWeatherData E lat lng s e calls =
    (\<lparr> success = False, data = JNull, op_error = Some (error_text (classify E err)) \<rparr>,
     calls @ [Post ''/weather/store-weather-data'' (store_payload lat lng s e)])"
  using assms
  by (simp add: storeWeatherData_def api_post_def store_payload_def classify_def
      split: option.splits)

lemma store_resolved:
  assumes "transport_post E ''/weather/store-weather-data'' (store_payload lat lng s e) = Resolved res"
  shows "storeWeatherData E lat lng s e calls =
    (\<lparr> success = True, data = body res, op_error = None \<rparr>,
     calls @ [Post ''/weather/store-weather-data'' (store_payload lat lng s e)])"
  using assms
  by (simp add: storeWeatherData_def api_post_def store_payload_def)

lemma get_rejected:
  assumes "transport_get E (''/weather/weather-file-content/'' @ ToString (numToString E) fn) = Rejected err"
  shows "getWeatherFileContent E fn calls =
    (\<lparr> success = False, data = JNull, op_error = Some (error_text (classify E err)) \<rparr>,
     calls @ [Get (''/weather/weather-file-content/'' @ ToString (numToString E) fn)])"
  using assms
  by (simp add: getWeatherFileContent_def api_get_def classify_def split: option.splits)

lemma get_resolved:
  assumes "transport_get E (''/weather/weather-file-content/'' @ ToString (numToString E) fn) = Resolved res"
  shows "getWeatherFileContent E fn calls =
    (\<lparr> success = True, data = body res, op_error = None \<rparr>,
     calls @ [Get (''/weather/weather-file-content/'' @ ToString (numToString E) fn)])"
  using assms
  by (simp add: getWeatherFileContent_def api_get_def)

lemma submit_store_failed:
  assumes "startDate fd = Some s" and "endDate fd = Some e"
    and "storeWeatherData E (latitude fd) (longitude fd) (isoDay E s) (isoDay E e) calls = (r, calls1)"
    and "\<not> success r"
  shows "handleFormSubmit E fd st calls =
     (st\<lparr> loading := False, ui_error := op_error r, weatherData := JNull, chartData := None,
          tableData := [] \<rparr>, calls1)"
  using assms by (simp add: handleFormSubmit_def)

lemma submit_fetch_failed:
  assumes "startDate fd = Some s" and "endDate fd = Some e"
    and "storeWeatherData E (latitude fd) (longitude fd) (isoDay E s) (isoDay E e) calls = (r, calls1)"
    and "success r" and "\<not> nullish (data r)"
    and "getWeatherFileContent E (js_prop (data r) ''filename'') calls1 = (r', calls2)"
    and "\<not> success r'"
  shows "handleFormSubmit E fd st calls =
     (st\<lparr> loading := False, ui_error := op_error r', weatherData := JNull, chartData := None,
          tableData := [] \<rparr>, calls2)"
  using assms by (simp add: handleFormSubmit_def)

lemma store_envelope:
  "envelope_ok (fst (storeWeatherData E lat lng s e calls)) \<and>
   (success (fst (storeWeatherData E lat lng s e calls)) \<longrightarrow>
      (\<exists>res. transport_post E ''/weather/store-weather-data'' (store_payload lat lng s e) = Resolved res \<and>
         data (fst (storeWeatherData E lat lng s e calls)) = body res))"
  by (cases "transport_post E ''/weather/store-weather-data'' (store_payload lat lng s e)")
    (simp_all add: store_resolved store_rejected envelope_ok_def)

lemma get_envelope:
  "envelope_ok (fst (getWeatherFileContent E fn calls)) \<and>
   (success (fst (getWeatherFileContent E fn calls)) \<longrightarrow>
      (\<exists>res. transport_get E (''/weather/weather-file-content/'' @ ToString (numToString E) fn) = Resolved res \<and>
         data (fst (getWeatherFileContent E fn calls)) = body res))"
  by (cases "transport_get E (''/weather/weather-file-content/'' @ ToString (numToString E) fn)")
    (simp_all add: get_resolved get_rejected envelope_ok_def)

lemma invariant_when_body: "envelope_ok r \<Longrightarrow> (success r \<longrightarrow> data r \<noteq> JNull) \<Longrightarrow> OperationResult_invariant r"
  by (auto simp: envelope_ok_def OperationResult_invariant_def)

text \<open>
  Claim C6. \<open>validateFormInputs\<close> returns the result of the latitude check when that
  fails, else of the longitude check when that fails, else of the date check when that
  fails, and succeeds only when all three do; and when it fails, \<open>handleSubmit\<close> puts that
  error into the form and returns with the dashboard and the log of calls untouched: no
  request goes out.
\<close>

theorem C6_validation_short_circuit:
  "(\<not> isValid (validateLatitude E (latitude fd)) \<longrightarrow>
      validateFormInputs E fd = validateLatitude E (latitude fd)) \<and>
   (isValid (validateLatitude E (latitude fd)) \<and> \<not> isValid (validateLongitude E (longitude fd)) \<longrightarrow>
      validateFormInputs E fd = validateLongitude E (longitude fd)) \<and>
   (isValid (validateLatitude E (latitude fd)) \<and> isValid (validateLongitude E (longitude fd)) \<and>
    \<not> isValid (validateDateRange E (startDate fd) (endDate fd)) \<longrightarrow>
      validateFormInputs E fd = validateDateRange E (startDate fd) (endDate fd)) \<and>
   (isValid (validateFormInputs E fd) \<longleftrightarrow>
      isValid (validateLatitude E (latitude fd)) \<and> isValid (validateLongitude E (longitude fd)) \<and>
      isValid (validateDateRange E (startDate fd) (endDate fd))) \<and>
   (\<not> isValid (validateFormInputs E (formData f)) \<longrightarrow>
      handleSubmit E f st calls =
        (f\<lparr> errors := [(''general'', error (validateFormInputs E (formData f)))] \<rparr>, st, calls))"
  by (simp add: validateFormInputs_def handleSubmit_def Let_def)

text \<open>
  The theorem at latitude 200: the range error of the latitude, and an empty log.
\<close>

theorem C6_witness:
  "validateFormInputs env0 (formData form200) =
     \<lparr> isValid = False, error = Some ''Latitude must be between -90 and 90 degrees'' \<rparr> \<and>
   handleSubmit env0 form200 idle [] =
     (form200\<lparr> errors := [(''general'', Some ''Latitude must be between -90 and 90 degrees'')] \<rparr>,
      idle, [])"
proof -
  have p: "parseFloat env0 (JStr ''200'') = Fin 200"
    by (simp add: parse_defs env0_def)
  have v: "validateLatitude env0 (latitude (formData form200)) =
      \<lparr> isValid = False, error = Some ''Latitude must be between -90 and 90 degrees'' \<rparr>"
    by (simp add: validateLatitude_cases form200_def p)
  from C6_validation_short_circuit [of env0 "formData form200" form200 idle "[]"] v
  show ?thesis by simp
qed

text \<open>
  Claim C7. When the transport answers the store request with an error status, the
  submission ends not loading, with the error \<open>API Error: <status> - <message>\<close>, the message
  being the \<open>error\<close> of the server's body when it has one; the log gains the one POST and no
  read. Both \<open>storeWeatherData\<close> and \<open>getWeatherFileContent\<close> turn a rejection into the same
  envelope, by the three-way rule: the server answered, nothing came back, or the request
  could not be made.
\<close>

theorem C7_store_server_error:
  assumes "startDate fd = Some s" and "endDate fd = Some e"
    and "transport_post E ''/weather/store-weather-data''
           (store_payload (latitude fd) (longitude fd) (isoDay E s) (isoDay E e)) = Rejected err"
    and "response err = Some r"
  shows "handleFormSubmit E fd st calls =
           (st\<lparr> loading := False,
                ui_error := Some (''API Error: '' @ showNat (status r) @ '' - '' @
                   ToString (numToString E) (js_or (js_prop (body r) ''error'') (JStr (statusText r)))),
                weatherData := JNull, chartData := None, tableData := [] \<rparr>,
            calls @ [Post ''/weather/store-weather-data''
                       (store_payload (latitude fd) (longitude fd) (isoDay E s) (isoDay E e))]) \<and>
         filter is_get (snd (handleFormSubmit E fd st calls)) = filter is_get calls \<and>
         (\<forall>m. js_prop (body r) ''error'' = JStr m \<and> m \<noteq> [] \<longrightarrow>
            ui_error (fst (handleFormSubmit E fd st calls)) =
              Some (''API Error: '' @ showNat (status r) @ '' - '' @ m)) \<and>
         (\<forall>err' la lo sd ed fn c1 c2.
            transport_post E ''/weather/store-weather-data'' (store_payload la lo sd ed) = Rejected err' \<and>
            transport_get E (''/weather/weather-file-content/'' @ ToString (numToString E) fn) = Rejected err'
            \<longrightarrow>
            fst (storeWeatherData E la lo sd ed c1) =
              \<lparr> success = False, data = JNull, op_error = Some (error_text (classify E err')) \<rparr> \<and>
            fst (getWeatherFileContent E fn c2) =
              \<lparr> success = False, data = JNull, op_error = Some (error_text (classify E err')) \<rparr>)"
proof -
  let ?p = "store_payload (latitude fd) (longitude fd) (isoDay E s) (isoDay E e)"
  let ?msg = "''API Error: '' @ showNat (status r) @ '' - '' @
                   ToString (numToString E) (js_or (js_prop (body r) ''error'') (JStr (statusText r)))"
  have t: "error_text (classify E err) = ?msg"
    using assms(4) by (simp add: classify_def)
  have st: "storeWeatherData E (latitude fd) (longitude fd) (isoDay E s) (isoDay E e) calls =
      (\<lparr> success = False, data = JNull, op_error = Some ?msg \<rparr>,
       calls @ [Post ''/weather/store-weather-data'' ?p])"
    using store_rejected [OF assms(3)] by (simp only: t)
  have h: "handleFormSubmit E fd st calls =
      (st\<lparr> loading := False, ui_error := Some ?msg, weatherData := JNull, chartData := None,
           tableData := [] \<rparr>, calls @ [Post ''/weather/store-weather-data'' ?p])"
    using submit_store_failed [OF assms(1,2) st] by simp
  have m: "\<forall>m. js_prop (body r) ''error'' = JStr m \<and> m \<noteq> [] \<longrightarrow>
      ui_error (fst (handleFormSubmit E fd st calls)) =
        Some (''API Error: '' @ showNat (status r) @ '' - '' @ m)"
    by (simp add: h js_or_def)
  have g: "filter is_get (snd (handleFormSubmit E fd st calls)) = filter is_get calls"
    by (simp add: h)
  have same: "\<forall>err' la lo sd ed fn c1 c2.
            transport_post E ''/weather/store-weather-data'' (store_payload la lo sd ed) = Rejected err' \<and>
            transport_get E (''/weather/weather-file-content/'' @ ToString (numToString E) fn) = Rejected err'
            \<longrightarrow>
            fst (storeWeatherData E la lo sd ed c1) =
              \<lparr> success = False, data = JNull, op_error = Some (error_text (classify E err')) \<rparr> \<and>
            fst (getWeatherFileContent E fn c2) =
              \<lparr> success = False, data = JNull, op_error = Some (error_text (classify E err')) \<rparr>"
    by (simp add: store_rejected get_rejected)
  from h g m same show ?thesis by blast
qed

text \<open>
  The theorem on a store that answers 500 with the message \<open>boom\<close>.
\<close>

theorem C7_witness:
  "handleFormSubmit env0 query0 idle [] =
     (idle\<lparr> ui_error := Some ''API Error: 500 - boom'' \<rparr>,
      [Post ''/weather/store-weather-data''
         (store_payload (JNum (Fin 40.7128)) (JNum (Fin (- 74.006))) ''2023-01-01'' ''2023-01-01'')])"
proof -
  have a: "startDate query0 = Some 1672531200000" "endDate query0 = Some 1675123200000"
    by (simp_all add: query0_def)
  have b: "transport_post env0 ''/weather/store-weather-data''
       (store_payload (latitude query0) (longitude query0) (isoDay env0 1672531200000)
          (isoDay env0 1675123200000)) =
     Rejected \<lparr> response = Some \<lparr> status = 500, statusText = ''Internal Server Error'',
                               body = JObj [(''error'', JStr ''boom'')] \<rparr>,
            request = True,
            message = Some ''Request failed with status code 500'' \<rparr>"
    by (simp add: env0_def)
  have c: "response \<lparr> response = Some \<lparr> status = 500, statusText = ''Internal Server Error'',
                               body = JObj [(''error'', JStr ''boom'')] \<rparr>,
            request = True,
            message = Some ''Request failed with status code 500'' \<rparr> =
      Some \<lparr> status = 500, statusText = ''Internal Server Error'',
                               body = JObj [(''error'', JStr ''boom'')] \<rparr>"
    by simp
  have d: "showNat 500 = ''500''"
    by (simp add: showNat.simps digit_char_def)
  have e: "isoDay env0 t = ''2023-01-01''" for t
    by (simp add: isoDay_def env0_def)
  from C7_store_server_error [OF a b c, of idle "[]"] show ?thesis
    by (simp add: d e js_or_def idle_def query0_def)
qed

text \<open>
  Claim C8, as the code has it. Every envelope of \<open>storeWeatherData\<close> and of
  \<open>getWeatherFileContent\<close> has \<open>success = false\<close> iff its data is \<open>null\<close> and its error is a
  string, and \<open>success = true\<close> iff its error is \<open>null\<close>, the data then being the body of the
  response as it came; so the invariant of the spec holds whenever a response that
  resolves has a body other than \<open>null\<close>.
\<close>

theorem C8_envelope_invariant:
  "envelope_ok (fst (storeWeatherData E lat lng s e calls)) \<and>
   envelope_ok (fst (getWeatherFileContent E fn calls)) \<and>
   (success (fst (storeWeatherData E lat lng s e calls)) \<longrightarrow>
      (\<exists>res. transport_post E ''/weather/store-weather-data'' (store_payload lat lng s e) = Resolved res \<and>
         data (fst (storeWeatherData E lat lng s e calls)) = body res)) \<and>
   (success (fst (getWeatherFileContent E fn calls)) \<longrightarrow>
      (\<exists>res. transport_get E (''/weather/weather-file-content/'' @ ToString (numToString E) fn) = Resolved res \<and>
         data (fst (getWeatherFileContent E fn calls)) = body res)) \<and>
   ((\<forall>res. transport_post E ''/weather/store-weather-data'' (store_payload lat lng s e) = Resolved res
        \<longrightarrow> body res \<noteq> JNull) \<longrightarrow>
      OperationResult_invariant (fst (storeWeatherData E lat lng s e calls))) \<and>
   ((\<forall>res. transport_get E (''/weather/weather-file-content/'' @ ToString (numToString E) fn) = Resolved res
        \<longrightarrow> body res \<noteq> JNull) \<longrightarrow>
      OperationResult_invariant (fst (getWeatherFileContent E fn calls)))"
  using store_envelope [of E lat lng s e calls] get_envelope [of E fn calls]
  by (auto intro!: invariant_when_body)

text \<open>
  A store that resolves with the body \<open>null\<close> gives \<open>success = true\<close> with \<open>data = null\<close>.
\<close>

theorem C8_counterexample:
  "fst (storeWeatherData env_null_body (JNum (Fin 40.7128)) (JNum (Fin (- 74.006)))
          ''2023-01-01'' ''2023-01-31'' []) =
     \<lparr> success = True, data = JNull, op_error = None \<rparr> \<and>
   \<not> OperationResult_invariant
       (fst (storeWeatherData env_null_body (JNum (Fin 40.7128)) (JNum (Fin (- 74.006)))
          ''2023-01-01'' ''2023-01-31'' []))"
  by (simp add: storeWeatherData_def api_post_def env_null_body_def env0_def
      OperationResult_invariant_def)

text \<open>
  The theorem on a store that fails, on one that succeeds, and on a read that fails.
\<close>

theorem C8_witness:
  "fst (storeWeatherData env0 (JNum (Fin 40.7128)) (JNum (Fin (- 74.006))) ''2023-01-01'' ''2023-01-31'' []) =
     \<lparr> success = False, data = JNull, op_error = Some ''API Error: 500 - boom'' \<rparr> \<and>
   OperationResult_invariant
     (fst (storeWeatherData env0 (JNum (Fin 40.7128)) (JNum (Fin (- 74.006))) ''2023-01-01'' ''2023-01-31'' [])) \<and>
   fst (storeWeatherData env_fetch_fails (JNum (Fin 40.7128)) (JNum (Fin (- 74.006))) ''2023-01-01'' ''2023-01-31'' []) =
     \<lparr> success = True, data = JObj [(''message'', JStr ''stored''), (''filename'', JStr ''w.json'')],
       op_error = None \<rparr> \<and>
   OperationResult_invariant
     (fst (storeWeatherData env_fetch_fails (JNum (Fin 40.7128)) (JNum (Fin (- 74.006))) ''2023-01-01'' ''2023-01-31'' [])) \<and>
   OperationResult_invariant (fst (getWeatherFileContent env0 (JStr ''w.json'') []))"
proof -
  have d: "showNat 500 = ''500''"
    by (simp add: showNat.simps digit_char_def)
  have a: "fst (storeWeatherData env0 (JNum (Fin 40.7128)) (JNum (Fin (- 74.006))) ''2023-01-01'' ''2023-01-31'' []) =
     \<lparr> success = False, data = JNull, op_error = Some ''API Error: 500 - boom'' \<rparr>"
    by (simp add: storeWeatherData_def api_post_def env0_def d js_or_def)
  have b: "fst (storeWeatherData env_fetch_fails (JNum (Fin 40.7128)) (JNum (Fin (- 74.006))) ''2023-01-01'' ''2023-01-31'' []) =
     \<lparr> success = True, data = JObj [(''message'', JStr ''stored''), (''filename'', JStr ''w.json'')],
       op_error = None \<rparr>"
    by (simp add: storeWeatherData_def api_post_def env_fetch_fails_def env0_def)
  have c: "\<forall>res. transport_post env0 url payload = Resolved res \<longrightarrow> body res \<noteq> JNull" for url payload
    by (simp add: env0_def)
  have c': "\<forall>res. transport_post env_fetch_fails url payload = Resolved res \<longrightarrow> body res \<noteq> JNull" for url payload
    by (auto simp: env_fetch_fails_def env0_def)
  have c'': "\<forall>res. transport_get env0 url = Resolved res \<longrightarrow> body res \<noteq> JNull" for url
    by (simp add: env0_def)
  from C8_envelope_invariant [of env0 "JNum (Fin 40.7128)" "JNum (Fin (- 74.006))" "''2023-01-01''" "''2023-01-31''" "[]" "JStr ''w.json''"]
    C8_envelope_invariant [of env_fetch_fails "JNum (Fin 40.7128)" "JNum (Fin (- 74.006))" "''2023-01-01''" "''2023-01-31''" "[]" "JStr ''w.json''"]
    a b c c' c''
  show ?thesis by simp
qed

text \<open>
  Claim C9. When the store step fails, and when the store step succeeds and the read by
  the stored file name fails, the submission ends with the raw payload \<open>null\<close>, the chart
  \<open>null\<close> and the table empty, whatever was shown before, and with the error of the step
  that failed.
\<close>

theorem C9_failure_clears_state:
  assumes "startDate fd = Some s" and "endDate fd = Some e"
    and "storeWeatherData E (latitude fd) (longitude fd) (isoDay E s) (isoDay E e) calls = (storeResult, calls1)"
    and "getWeatherFileContent E (js_prop (data storeResult) ''filename'') calls1 = (contentResult, calls2)"
  shows "(\<not> success storeResult \<longrightarrow>
            handleFormSubmit E fd st calls =
              (st\<lparr> loading := False, ui_error := op_error storeResult, weatherData := JNull,
                   chartData := None, tableData := [] \<rparr>, calls1)) \<and>
         (success storeResult \<and> \<not> nullish (data storeResult) \<and> \<not> success contentResult \<longrightarrow>
            handleFormSubmit E fd st calls =
              (st\<lparr> loading := False, ui_error := op_error contentResult, weatherData := JNull,
                   chartData := None, tableData := [] \<rparr>, calls2)) \<and>
         (\<not> success storeResult \<or> (\<not> nullish (data storeResult) \<and> \<not> success contentResult) \<longrightarrow>
            weatherData (fst (handleFormSubmit E fd st calls)) = JNull \<and>
            chartData (fst (handleFormSubmit E fd st calls)) = None \<and>
            tableData (fst (handleFormSubmit E fd st calls)) = [] \<and>
            ui_error (fst (handleFormSubmit E fd st calls)) \<noteq> None)"
proof -
  have a: "\<not> success storeResult \<Longrightarrow> handleFormSubmit E fd st calls =
              (st\<lparr> loading := False, ui_error := op_error storeResult, weatherData := JNull,
                   chartData := None, tableData := [] \<rparr>, calls1)"
    using submit_store_failed [OF assms(1,2,3)] by simp
  have b: "success storeResult \<Longrightarrow> \<not> nullish (data storeResult) \<Longrightarrow> \<not> success contentResult \<Longrightarrow>
       handleFormSubmit E fd st calls =
              (st\<lparr> loading := False, ui_error := op_error contentResult, weatherData := JNull,
                   chartData := None, tableData := [] \<rparr>, calls2)"
    using submit_fetch_failed [OF assms(1,2,3) _ _ assms(4)] by simp
  have e1: "envelope_ok storeResult"
    using store_envelope [of E "latitude fd" "longitude fd" "isoDay E s" "isoDay E e" calls] assms(3) by simp
  have e2: "envelope_ok contentResult"
    using get_envelope [of E "js_prop (data storeResult) ''filename''" calls1] assms(4) by simp
  have c: "\<not> success storeResult \<Longrightarrow> op_error storeResult \<noteq> None"
    using e1 by (simp add: envelope_ok_def)
  have d: "\<not> success contentResult \<Longrightarrow> op_error contentResult \<noteq> None"
    using e2 by (simp add: envelope_ok_def)
  show ?thesis
  proof (intro conjI impI)
    assume "\<not> success storeResult"
    then show "handleFormSubmit E fd st calls =
              (st\<lparr> loading := False, ui_error := op_error storeResult, weatherData := JNull,
                   chartData := None, tableData := [] \<rparr>, calls1)" by (rule a)
  next
    assume "success storeResult \<and> \<not> nullish (data storeResult) \<and> \<not> success contentResult"
    then show "handleFormSubmit E fd st calls =
              (st\<lparr> loading := False, ui_error := op_error contentResult, weatherData := JNull,
                   chartData := None, tableData := [] \<rparr>, calls2)" by (simp add: b)
  next
    assume h: "\<not> success storeResult \<or> (\<not> nullish (data storeResult) \<and> \<not> success contentResult)"
    show "weatherData (fst (handleFormSubmit E fd st calls)) = JNull"
      using h a b by (cases "success storeResult") auto
    show "chartData (fst (handleFormSubmit E fd st calls)) = None"
      using h a b by (cases "success storeResult") auto
    show "tableData (fst (handleFormSubmit E fd st calls)) = []"
      using h a b by (cases "success storeResult") auto
    show "ui_error (fst (handleFormSubmit E fd st calls)) \<noteq> None"
      using h a b c d by (cases "success storeResult") auto
  qed
qed

text \<open>
  The theorem on a dashboard that shows an earlier result: once with a store that
  fails, once with a read that fails.
\<close>

theorem C9_witness:
  "handleFormSubmit env0 query0 shown [] =
     (shown\<lparr> ui_error := Some ''API Error: 500 - boom'', weatherData := JNull,
             chartData := None, tableData := [] \<rparr>,
      [Post ''/weather/store-weather-data''
         (store_payload (JNum (Fin 40.7128)) (JNum (Fin (- 74.006))) ''2023-01-01'' ''2023-01-01'')]) \<and>
   handleFormSubmit env_fetch_fails query0 shown [] =
     (shown\<lparr> ui_error := Some ''Network error: Unable to reach backend service'', weatherData := JNull,
             chartData := None, tableData := [] \<rparr>,
      [Post ''/weather/store-weather-data''
         (store_payload (JNum (Fin 40.7128)) (JNum (Fin (- 74.006))) ''2023-01-01'' ''2023-01-01''),
       Get ''/weather/weather-file-content/w.json''])"
proof -
  have a: "startDate query0 = Some 1672531200000" "endDate query0 = Some 1675123200000"
    by (simp_all add: query0_def)
  have d: "showNat 500 = ''500''"
    by (simp add: showNat.simps digit_char_def)
  have e: "isoDay E t = ''2023-01-01''" if "toISOString E = toISOString env0" for t E
    using that by (simp add: isoDay_def env0_def)
  have s1: "storeWeatherData env0 (latitude query0) (longitude query0) (isoDay env0 1672531200000)
       (isoDay env0 1675123200000) [] =
     (\<lparr> success = False, data = JNull, op_error = Some ''API Error: 500 - boom'' \<rparr>,
      [Post ''/weather/store-weather-data''
         (store_payload (JNum (Fin 40.7128)) (JNum (Fin (- 74.006))) ''2023-01-01'' ''2023-01-01'')])"
    by (simp add: storeWeatherData_def api_post_def e store_payload_def query0_def)
       (simp add: env0_def d js_or_def)
  have s2: "storeWeatherData env_fetch_fails (latitude query0) (longitude query0)
       (isoDay env_fetch_fails 1672531200000) (isoDay env_fetch_fails 1675123200000) [] =
     (\<lparr> success = True, data = JObj [(''message'', JStr ''stored''), (''filename'', JStr ''w.json'')],
        op_error = None \<rparr>,
      [Post ''/weather/store-weather-data''
         (store_payload (JNum (Fin 40.7128)) (JNum (Fin (- 74.006))) ''2023-01-01'' ''2023-01-01'')])"
    by (simp add: storeWeatherData_def api_post_def e env_fetch_fails_def store_payload_def query0_def)
  have g1: "\<exists>r c. getWeatherFileContent env0 (js_prop (data \<lparr> success = False, data = JNull, op_error = Some ''API Error: 500 - boom'' \<rparr>) ''filename'')
       [Post ''/weather/store-weather-data''
         (store_payload (JNum (Fin 40.7128)) (JNum (Fin (- 74.006))) ''2023-01-01'' ''2023-01-01'')] = (r, c)"
    by simp
  have g2: "getWeatherFileContent env_fetch_fails
       (js_prop (data \<lparr> success = True, data = JObj [(''message'', JStr ''stored''), (''filename'', JStr ''w.json'')],
        op_error = None \<rparr>) ''filename'')
       [Post ''/weather/store-weather-data''
         (store_payload (JNum (Fin 40.7128)) (JNum (Fin (- 74.006))) ''2023-01-01'' ''2023-01-01'')] =
     (\<lparr> success = False, data = JNull, op_error = Some ''Network error: Unable to reach backend service'' \<rparr>,
      [Post ''/weather/store-weather-data''
         (store_payload (JNum (Fin 40.7128)) (JNum (Fin (- 74.006))) ''2023-01-01'' ''2023-01-01''),
       Get ''/weather/weather-file-content/w.json''])"
    by (simp add: getWeatherFileContent_def api_get_def env_fetch_fails_def env0_def)
  from g1 obtain r c where g1': "getWeatherFileContent env0 (js_prop (data \<lparr> success = False, data = JNull, op_error = Some ''API Error: 500 - boom'' \<rparr>) ''filename'')
       [Post ''/weather/store-weather-data''
         (store_payload (JNum (Fin 40.7128)) (JNum (Fin (- 74.006))) ''2023-01-01'' ''2023-01-01'')] = (r, c)"
    by blast
  from C9_failure_clears_state [OF a s1 g1', of shown] C9_failure_clears_state [OF a s2 g2, of shown]
  show ?thesis by (simp add: nullish_def shown_def)
qed

end
